theory Spec2Isabelle
  imports Complex_Main
begin

section \<open>Values, errors and the numpy primitives\<close>

text \<open>
  The forecasting library of \<^verbatim>\<open>backend/forecasting_algorithms.py\<close> computes on Python
  floats. The embedding computes on \<^typ>\<open>real\<close>: every decimal literal of the source
  stands for its exact decimal value and no operation rounds or overflows. A float
  that may be \<^verbatim>\<open>nan\<close> is a \<^typ>\<open>real option\<close> with \<^term>\<open>None\<close> for \<^verbatim>\<open>nan\<close>; on inputs
  that are real numbers the only source of \<^verbatim>\<open>nan\<close> is the mean of an empty sequence.
  An exception raised by the source is a value of \<open>py_error\<close>.
\<close>

datatype py_error = ValueError string | IndexError | ZeroDivisionError | KeyError string

type_synonym npfloat = "real option"

text \<open>\<^verbatim>\<open>np.mean\<close> of a sequence known to be non-empty.\<close>

definition mean :: "real list \<Rightarrow> real" where
  "mean xs = sum_list xs / real (length xs)"

text \<open>\<^verbatim>\<open>np.mean\<close>: the arithmetic mean, \<^verbatim>\<open>nan\<close> (with a warning, no exception) on an
  empty sequence.\<close>

definition np_mean :: "real list \<Rightarrow> npfloat" where
  "np_mean xs = (if xs = [] then None else Some (mean xs))"

text \<open>The Python slice \<^verbatim>\<open>xs[-n:]\<close> for \<open>n \<ge> 0\<close>: the last \<open>n\<close> elements, all of
  \<open>xs\<close> when it is shorter, and all of \<open>xs\<close> for \<open>n = 0\<close> (\<^verbatim>\<open>xs[-0:]\<close> is \<^verbatim>\<open>xs[0:]\<close>).\<close>

definition py_last :: "'a list \<Rightarrow> nat \<Rightarrow> 'a list" where
  "py_last xs n = (if n = 0 then xs else drop (length xs - n) xs)"

section \<open>Moving average\<close>

text \<open>
  \<^verbatim>\<open>
  def moving_average(self, data, window=24):
      if len(data) < window:
          return np.mean(data)
      return np.mean(data[-window:])
  \<close>
\<close>

definition moving_average :: "real list \<Rightarrow> nat \<Rightarrow> npfloat" where
  "moving_average data window =
     (if length data < window then np_mean data
      else np_mean (py_last data window))"

section \<open>Exponential smoothing\<close>

text \<open>
  \<^verbatim>\<open>
  def exponential_smoothing(self, data, alpha=0.3):
      if not data:
          return 0
      result = data[0]
      for value in data[1:]:
          result = alpha * value + (1 - alpha) * result
      return result
  \<close>
\<close>

definition es_step :: "real \<Rightarrow> real \<Rightarrow> real \<Rightarrow> real" where
  "es_step alpha v result = alpha * v + (1 - alpha) * result"

definition exponential_smoothing :: "real list \<Rightarrow> real \<Rightarrow> real" where
  "exponential_smoothing data alpha =
     (case data of
        [] \<Rightarrow> 0
      | x # rest \<Rightarrow> fold (es_step alpha) rest x)"

section \<open>Holt-Winters\<close>

text \<open>
  \<^verbatim>\<open>
  def holt_winters(self, data, season_length=24, alpha=0.3, beta=0.1, gamma=0.1):
      if len(data) < season_length * 2:
          return self.exponential_smoothing(data, alpha)
      level = np.mean(data[:season_length])
      trend = (np.mean(data[season_length:2*season_length])
               - np.mean(data[:season_length])) / season_length
      seasonal = [data[i] - level for i in range(season_length)]
      for i in range(season_length, len(data)):
          prev_level = level
          level = alpha * (data[i] - seasonal[i % season_length]) + (1 - alpha) * (level + trend)
          trend = beta * (level - prev_level) + (1 - beta) * trend
          seasonal[i % season_length] = gamma * (data[i] - level)
                                        + (1 - gamma) * seasonal[i % season_length]
      return level + trend + seasonal[0]
  \<close>
  The loop state is the triple of level, trend and the seasonal list. Past the length
  test a positive season length keeps every index in range and every mean over a
  non-empty block. With season length 0 the source passes the length test and then
  raises: on an empty series the loop does not run and \<^verbatim>\<open>seasonal[0]\<close> of the empty
  list is an IndexError; otherwise the first \<^verbatim>\<open>i % season_length\<close> is a
  ZeroDivisionError.
\<close>

type_synonym hw_state = "real \<times> real \<times> real list"

definition hw_init :: "real list \<Rightarrow> nat \<Rightarrow> hw_state" where
  "hw_init data season_length =
     (let level = mean (take season_length data);
          trend = (mean (take season_length (drop season_length data))
                   - mean (take season_length data)) / real season_length;
          seasonal = map (\<lambda>i. data ! i - level) [0..<season_length]
      in (level, trend, seasonal))"

fun hw_step :: "real list \<Rightarrow> nat \<Rightarrow> real \<Rightarrow> real \<Rightarrow> real \<Rightarrow> nat \<Rightarrow> hw_state \<Rightarrow> hw_state" where
  "hw_step data season_length alpha beta gamma i (level, trend, seasonal) =
     (let prev_level = level;
          level' = alpha * (data ! i - seasonal ! (i mod season_length))
                   + (1 - alpha) * (level + trend);
          trend' = beta * (level' - prev_level) + (1 - beta) * trend;
          seasonal' = seasonal[i mod season_length :=
                        gamma * (data ! i - level')
                        + (1 - gamma) * seasonal ! (i mod season_length)]
      in (level', trend', seasonal'))"

definition hw_loop :: "real list \<Rightarrow> nat \<Rightarrow> real \<Rightarrow> real \<Rightarrow> real \<Rightarrow> hw_state \<Rightarrow> hw_state" where
  "hw_loop data season_length alpha beta gamma st =
     fold (hw_step data season_length alpha beta gamma)
          [season_length..<length data] st"

fun hw_result :: "hw_state \<Rightarrow> real" where
  "hw_result (level, trend, seasonal) = level + trend + seasonal ! 0"

definition holt_winters ::
  "real list \<Rightarrow> nat \<Rightarrow> real \<Rightarrow> real \<Rightarrow> real \<Rightarrow> py_error + real" where
  "holt_winters data season_length alpha beta gamma =
     (if length data < season_length * 2
        then Inr (exponential_smoothing data alpha)
      else if season_length = 0
        then (if data = [] then Inl IndexError else Inl ZeroDivisionError)
      else Inr (hw_result (hw_loop data season_length alpha beta gamma
                             (hw_init data season_length))))"

section \<open>Simplified ARIMA\<close>

text \<open>
  \<^verbatim>\<open>
  def arima_simple(self, data, p=1, d=1, q=1):
      if len(data) < max(p, q) + d:
          return np.mean(data)
      diff_data = data
      for _ in range(d):
          diff_data = np.diff(diff_data)
      if len(diff_data) < max(p, q):
          return data[-1]
      ar_prediction = 0
      for i in range(1, min(p + 1, len(diff_data) + 1)):
          ar_prediction += 0.5 ** i * diff_data[-i]
      prediction = data[-1] + ar_prediction
      return max(0, prediction)
  \<close>
  \<^verbatim>\<open>np.diff\<close> maps \<open>a\<close> to the sequence of \<open>a[i+1] - a[i]\<close>, one element shorter (empty
  for an input of at most one element). \<^verbatim>\<open>data[-1]\<close> of an empty list is an IndexError,
  which only \<open>p = q = d = 0\<close> can reach.
\<close>

definition np_diff :: "real list \<Rightarrow> real list" where
  "np_diff a = map (\<lambda>(x, y). y - x) (zip a (tl a))"

definition py_neg_index :: "'a list \<Rightarrow> nat \<Rightarrow> 'a" where
  "py_neg_index xs i = xs ! (length xs - i)"

definition ar_term :: "real list \<Rightarrow> nat \<Rightarrow> real" where
  "ar_term diff_data p =
     fold (\<lambda>i ar_prediction. ar_prediction + 0.5 ^ i * py_neg_index diff_data i)
          [1..<min (p + 1) (length diff_data + 1)] 0"

definition arima_simple :: "real list \<Rightarrow> nat \<Rightarrow> nat \<Rightarrow> nat \<Rightarrow> py_error + npfloat" where
  "arima_simple data p d q =
     (if length data < max p q + d then Inr (np_mean data)
      else
        let diff_data = (np_diff ^^ d) data in
        if data = [] then Inl IndexError
        else if length diff_data < max p q then Inr (Some (last data))
        else
          let ar_prediction = ar_term diff_data p;
              prediction = last data + ar_prediction
          in Inr (Some (max 0 prediction)))"

section \<open>Seasonal decomposition\<close>

text \<open>
  \<^verbatim>\<open>
  def seasonal_decomposition_forecast(self, data, period=24):
      if len(data) < period * 3:
          return {'prediction': np.mean(data), 'trend': 0, 'seasonal': 0}
      data_array = np.array(data)
      trend = []
      for i in range(len(data_array)):
          start = max(0, i - period//2)
          end = min(len(data_array), i + period//2 + 1)
          trend.append(np.mean(data_array[start:end]))
      trend = np.array(trend)
      detrended = data_array - trend
      seasonal = np.zeros(period)
      for i in range(period):
          seasonal_values = detrended[i::period]
          seasonal[i] = np.mean(seasonal_values) if len(seasonal_values) > 0 else 0
      next_trend = trend[-1] + (trend[-1] - trend[-2]) if len(trend) > 1 else trend[-1]
      next_seasonal = seasonal[len(data) % period]
      prediction = next_trend + next_seasonal
      return {'prediction': max(0, prediction), 'trend': next_trend,
              'seasonal': next_seasonal,
              'trend_direction': 'increasing' if len(trend) > 1 and trend[-1] > trend[-2]
                                 else 'decreasing'}
  \<close>
  Every window \<open>[start, end)\<close> contains \<open>i\<close>, so each trend value is a mean over a
  non-empty slice. With period 0 the source passes the length test and raises: on an
  empty series \<^verbatim>\<open>trend[-1]\<close> is an IndexError, otherwise \<^verbatim>\<open>len(data) % period\<close> is a
  ZeroDivisionError.
\<close>

record sd_result =
  sd_prediction :: npfloat
  sd_trend :: real
  sd_seasonal :: real
  sd_trend_direction :: "string option"

text \<open>The slices \<^verbatim>\<open>xs[start:end]\<close> (for indices that are not negative) and
  \<^verbatim>\<open>xs[i::step]\<close> (for a positive step).\<close>

definition py_slice :: "'a list \<Rightarrow> nat \<Rightarrow> nat \<Rightarrow> 'a list" where
  "py_slice xs start end = take (end - start) (drop start xs)"

definition py_stride :: "'a list \<Rightarrow> nat \<Rightarrow> nat \<Rightarrow> 'a list" where
  "py_stride xs i step =
     map (\<lambda>j. xs ! j) (filter (\<lambda>j. (j - i) mod step = 0) [i..<length xs])"

definition sd_trend_at :: "real list \<Rightarrow> nat \<Rightarrow> nat \<Rightarrow> real" where
  "sd_trend_at data_array period i =
     (let start = nat (max 0 (int i - int (period div 2)));
          end = min (length data_array) (i + period div 2 + 1)
      in mean (py_slice data_array start end))"

definition sd_trend_list :: "real list \<Rightarrow> nat \<Rightarrow> real list" where
  "sd_trend_list data_array period =
     map (sd_trend_at data_array period) [0..<length data_array]"

definition sd_seasonal_at :: "real list \<Rightarrow> nat \<Rightarrow> nat \<Rightarrow> real" where
  "sd_seasonal_at detrended period i =
     (let seasonal_values = py_stride detrended i period
      in if length seasonal_values > 0 then mean seasonal_values else 0)"

definition seasonal_decomposition_forecast ::
  "real list \<Rightarrow> nat \<Rightarrow> py_error + sd_result" where
  "seasonal_decomposition_forecast data period =
     (if length data < period * 3
        then Inr \<lparr>sd_prediction = np_mean data, sd_trend = 0, sd_seasonal = 0,
                  sd_trend_direction = None\<rparr>
      else if period = 0
        then (if data = [] then Inl IndexError else Inl ZeroDivisionError)
      else
        let trend = sd_trend_list data period;
            detrended = map (\<lambda>(x, t). x - t) (zip data trend);
            seasonal = map (sd_seasonal_at detrended period) [0..<period];
            next_trend = (if length trend > 1
                          then last trend + (last trend - py_neg_index trend 2)
                          else last trend);
            next_seasonal = seasonal ! (length data mod period);
            prediction = next_trend + next_seasonal
        in Inr \<lparr>sd_prediction = Some (max 0 prediction), sd_trend = next_trend,
                 sd_seasonal = next_seasonal,
                 sd_trend_direction =
                   Some (if length trend > 1 \<and> last trend > py_neg_index trend 2
                         then ''increasing'' else ''decreasing'')\<rparr>)"

section \<open>Linear regression\<close>

text \<open>
  \<^verbatim>\<open>
  def linear_regression_forecast(self, df):
      if len(df) < 10:
          return {'prediction': df['consumption'].mean(), 'confidence': 0.5}
      features = ['hour', 'day_of_week', 'day_of_year', 'temperature', 'humidity']
      X = df[features].fillna(df[features].mean())
      y = df['consumption']
      model = LinearRegression()
      model.fit(X, y)
      last_row = X.iloc[-1:].copy()
      last_row['hour'] = (last_row['hour'] + 1) % 24
      prediction = model.predict(last_row)[0]
      confidence = model.score(X, y)
      return {'prediction': max(0, prediction), 'confidence': confidence,
              'feature_importance': dict(zip(features, model.coef_))}
  \<close>
  A data frame is the list of its rows. Every row built by \<^verbatim>\<open>enhanced_prediction\<close>
  has all seven columns filled, so \<^verbatim>\<open>fillna\<close> changes nothing and is the identity here.

  \<^verbatim>\<open>LinearRegression\<close> belongs to scikit-learn, not to this repository. The estimator
  is a parameter of the model: \<open>sk_fit X y\<close> is the fitted pair of coefficients and
  intercept and \<open>sk_score X y\<close> the value of \<^verbatim>\<open>model.score(X, y)\<close>. The prediction
  of a fitted linear model at a row is the intercept plus the inner product of the
  coefficients with the row.
\<close>

record df_row =
  consumption :: real
  hour :: int
  day_of_week :: int
  day_of_year :: int
  month :: int
  temperature :: real
  humidity :: real

record linear_model =
  coef :: "real list"
  intercept :: real

record sklearn =
  sk_fit :: "real list list \<Rightarrow> real list \<Rightarrow> linear_model"
  sk_score :: "real list list \<Rightarrow> real list \<Rightarrow> real"

record lr_result =
  lr_prediction :: npfloat
  lr_confidence :: real
  lr_feature_importance :: "(string \<times> real) list option"

definition dot :: "real list \<Rightarrow> real list \<Rightarrow> real" where
  "dot w x = sum_list (map (\<lambda>(a, b). a * b) (zip w x))"

definition predict :: "linear_model \<Rightarrow> real list \<Rightarrow> real" where
  "predict model x = dot (coef model) x + intercept model"

definition features :: "string list" where
  "features = [''hour'', ''day_of_week'', ''day_of_year'', ''temperature'', ''humidity'']"

definition feature_row :: "df_row \<Rightarrow> real list" where
  "feature_row r =
     [real_of_int (hour r), real_of_int (day_of_week r), real_of_int (day_of_year r),
      temperature r, humidity r]"

definition next_hour_row :: "df_row \<Rightarrow> real list" where
  "next_hour_row r = feature_row (r\<lparr>hour := (hour r + 1) mod 24\<rparr>)"

definition linear_regression_forecast :: "sklearn \<Rightarrow> df_row list \<Rightarrow> lr_result" where
  "linear_regression_forecast sk df =
     (if length df < 10
        then \<lparr>lr_prediction = np_mean (map consumption df), lr_confidence = 0.5,
               lr_feature_importance = None\<rparr>
      else
        let X = map feature_row df;
            y = map consumption df;
            model = sk_fit sk X y;
            last_row = next_hour_row (last df);
            prediction = predict model last_row;
            confidence = sk_score sk X y
        in \<lparr>lr_prediction = Some (max 0 prediction), lr_confidence = confidence,
             lr_feature_importance = Some (zip features (coef model))\<rparr>)"

section \<open>The ensemble\<close>

text \<open>
  \<^verbatim>\<open>
  def ensemble_forecast(self, df):
      consumption_data = df['consumption'].tolist()
      predictions = {}
      predictions['moving_average'] = self.moving_average(consumption_data)
      predictions['exponential_smoothing'] = self.exponential_smoothing(consumption_data)
      predictions['holt_winters'] = self.holt_winters(consumption_data)
      predictions['arima'] = self.arima_simple(consumption_data)
      lr_result = self.linear_regression_forecast(df)
      predictions['linear_regression'] = lr_result['prediction']
      seasonal_result = self.seasonal_decomposition_forecast(consumption_data)
      predictions['seasonal_decomposition'] = seasonal_result['prediction']
      weights = {'moving_average': 0.15, 'exponential_smoothing': 0.20,
                 'holt_winters': 0.25, 'linear_regression': 0.20,
                 'seasonal_decomposition': 0.15, 'arima': 0.05}
      ensemble_prediction = sum(predictions[method] * weights[method]
                                for method in predictions)
      pred_values = list(predictions.values())
      prediction_std = np.std(pred_values)
      return {'ensemble_prediction': ensemble_prediction,
              'individual_predictions': predictions,
              'confidence_interval': {
                  'lower': ensemble_prediction - 1.96 * prediction_std,
                  'upper': ensemble_prediction + 1.96 * prediction_std},
              'prediction_variance': prediction_std,
              'algorithm_weights': weights,
              'linear_regression_details': lr_result,
              'seasonal_analysis': seasonal_result}
  \<close>
  The two dictionaries are association lists in insertion order, which is the order
  the sum and \<^verbatim>\<open>list(predictions.values())\<close> traverse. Arithmetic on a \<^verbatim>\<open>nan\<close> gives
  \<^verbatim>\<open>nan\<close>. \<^verbatim>\<open>np.std\<close> is the population standard deviation: the square root of the
  mean squared deviation from the mean.
\<close>

definition fl_add :: "npfloat \<Rightarrow> npfloat \<Rightarrow> npfloat" where
  "fl_add a b = (case (a, b) of (Some x, Some y) \<Rightarrow> Some (x + y) | _ \<Rightarrow> None)"

definition fl_sub :: "npfloat \<Rightarrow> npfloat \<Rightarrow> npfloat" where
  "fl_sub a b = (case (a, b) of (Some x, Some y) \<Rightarrow> Some (x - y) | _ \<Rightarrow> None)"

definition fl_mul :: "npfloat \<Rightarrow> npfloat \<Rightarrow> npfloat" where
  "fl_mul a b = (case (a, b) of (Some x, Some y) \<Rightarrow> Some (x * y) | _ \<Rightarrow> None)"

definition std :: "real list \<Rightarrow> real" where
  "std xs = sqrt (mean (map (\<lambda>x. (x - mean xs)\<^sup>2) xs))"

definition np_std :: "npfloat list \<Rightarrow> npfloat" where
  "np_std xs =
     (case those xs of
        None \<Rightarrow> None
      | Some vs \<Rightarrow> if vs = [] then None else Some (std vs))"

definition weights :: "(string \<times> real) list" where
  "weights =
     [(''moving_average'', 0.15), (''exponential_smoothing'', 0.20),
      (''holt_winters'', 0.25), (''linear_regression'', 0.20),
      (''seasonal_decomposition'', 0.15), (''arima'', 0.05)]"

definition lookup :: "(string \<times> 'a) list \<Rightarrow> string \<Rightarrow> py_error + 'a" where
  "lookup d k = (case map_of d k of None \<Rightarrow> Inl (KeyError k) | Some v \<Rightarrow> Inr v)"

fun weighted_sum ::
  "npfloat \<Rightarrow> (string \<times> npfloat) list \<Rightarrow> (string \<times> real) list \<Rightarrow> py_error + npfloat" where
  "weighted_sum acc [] w = Inr acc"
| "weighted_sum acc ((method, v) # rest) w =
     (case lookup w method of
        Inl e \<Rightarrow> Inl e
      | Inr x \<Rightarrow> weighted_sum (fl_add acc (fl_mul v (Some x))) rest w)"

record confidence_interval =
  lower :: npfloat
  upper :: npfloat

record ensemble_result =
  ensemble_prediction :: npfloat
  individual_predictions :: "(string \<times> npfloat) list"
  confidence_interval :: confidence_interval
  prediction_variance :: npfloat
  algorithm_weights :: "(string \<times> real) list"
  linear_regression_details :: lr_result
  seasonal_analysis :: sd_result

definition ensemble_forecast :: "sklearn \<Rightarrow> df_row list \<Rightarrow> py_error + ensemble_result" where
  "ensemble_forecast sk df =
     (let consumption_data = map consumption df;
          ma = moving_average consumption_data 24;
          es = exponential_smoothing consumption_data 0.3
      in case holt_winters consumption_data 24 0.3 0.1 0.1 of
           Inl e \<Rightarrow> Inl e
         | Inr hw \<Rightarrow>
       (case arima_simple consumption_data 1 1 1 of
           Inl e \<Rightarrow> Inl e
         | Inr ar \<Rightarrow>
       (let lr_result = linear_regression_forecast sk df
        in case seasonal_decomposition_forecast consumption_data 24 of
           Inl e \<Rightarrow> Inl e
         | Inr seasonal_result \<Rightarrow>
       (let predictions =
              [(''moving_average'', ma), (''exponential_smoothing'', Some es),
               (''holt_winters'', Some hw), (''arima'', ar),
               (''linear_regression'', lr_prediction lr_result),
               (''seasonal_decomposition'', sd_prediction seasonal_result)]
        in case weighted_sum (Some 0) predictions weights of
           Inl e \<Rightarrow> Inl e
         | Inr ens \<Rightarrow>
       (let pred_values = map snd predictions;
            prediction_std = np_std pred_values
        in Inr \<lparr>ensemble_prediction = ens,
                 individual_predictions = predictions,
                 confidence_interval =
                   \<lparr>lower = fl_sub ens (fl_mul (Some 1.96) prediction_std),
                    upper = fl_add ens (fl_mul (Some 1.96) prediction_std)\<rparr>,
                 prediction_variance = prediction_std,
                 algorithm_weights = weights,
                 linear_regression_details = lr_result,
                 seasonal_analysis = seasonal_result\<rparr>)))))"

section \<open>The entry point\<close>

text \<open>
  From \<^verbatim>\<open>backend/simple_main.py\<close>:
  \<^verbatim>\<open>
  class EnergyDataPoint(BaseModel):
      consumption: float
      hour: int
      dayofweek: int
      month: int
      dayofyear: int

  def enhanced_prediction(data, model_type="ensemble"):
      if len(data) < 10:
          raise ValueError("Need at least 10 data points for prediction")
      df_data = []
      for point in data:
          df_data.append({
              'consumption': point.consumption,
              'hour': point.hour,
              'day_of_week': point.dayofweek,
              'day_of_year': point.dayofyear,
              'month': point.month,
              'temperature': getattr(point, 'temperature', 20),
              'humidity': getattr(point, 'humidity', 50)})
      df = pd.DataFrame(df_data)
      ensemble_result = forecasting_algorithms.ensemble_forecast(df)
      return ensemble_result
  \<close>
  An \<^verbatim>\<open>EnergyDataPoint\<close> has no temperature and no humidity attribute, so both
  \<^verbatim>\<open>getattr\<close> calls return their defaults.
\<close>

record energy_data_point =
  pt_consumption :: real
  pt_hour :: int
  pt_dayofweek :: int
  pt_month :: int
  pt_dayofyear :: int

definition to_row :: "energy_data_point \<Rightarrow> df_row" where
  "to_row point =
     \<lparr>consumption = pt_consumption point, hour = pt_hour point,
      day_of_week = pt_dayofweek point, day_of_year = pt_dayofyear point,
      month = pt_month point, temperature = 20, humidity = 50\<rparr>"

definition enhanced_prediction ::
  "sklearn \<Rightarrow> energy_data_point list \<Rightarrow> string \<Rightarrow> py_error + ensemble_result" where
  "enhanced_prediction sk data model_type =
     (if length data < 10
        then Inl (ValueError ''Need at least 10 data points for prediction'')
      else
        let df = map to_row data;
            ensemble_result = ensemble_forecast sk df
        in ensemble_result)"

section \<open>Holt-Winters as the specification words it\<close>

text \<open>
  The specification describes Holt-Winters for season length 24, \<open>\<alpha> = 0.3\<close> and
  \<open>\<beta> = \<gamma> = 0.1\<close> by its initial values and three recurrences. The definitions of this
  section follow those words, not the source: the seasonal component is a function of
  the index, \<open>spec_hw_iterate x k\<close> is the state after the updates for
  \<open>i = 24, ..., 24 + k - 1\<close>, and the forecast reads the seasonal index 0.
\<close>

type_synonym spec_hw_state = "real \<times> real \<times> (nat \<Rightarrow> real)"

definition spec_hw_initial :: "real list \<Rightarrow> spec_hw_state" where
  "spec_hw_initial x =
     (mean (take 24 x),
      (mean (take 24 (drop 24 x)) - mean (take 24 x)) / 24,
      (\<lambda>i. x ! i - mean (take 24 x)))"

fun spec_hw_update :: "real list \<Rightarrow> nat \<Rightarrow> spec_hw_state \<Rightarrow> spec_hw_state" where
  "spec_hw_update x i (level, trend, seasonal) =
     (let level' = 0.3 * (x ! i - seasonal (i mod 24)) + (1 - 0.3) * (level + trend);
          trend' = 0.1 * (level' - level) + (1 - 0.1) * trend;
          s' = 0.1 * (x ! i - level') + (1 - 0.1) * seasonal (i mod 24)
      in (level', trend', seasonal (i mod 24 := s')))"

fun spec_hw_iterate :: "real list \<Rightarrow> nat \<Rightarrow> spec_hw_state" where
  "spec_hw_iterate x 0 = spec_hw_initial x"
| "spec_hw_iterate x (Suc k) = spec_hw_update x (24 + k) (spec_hw_iterate x k)"

definition spec_holt_winters :: "real list \<Rightarrow> real" where
  "spec_holt_winters x =
     (case spec_hw_iterate x (length x - 24) of
        (level, trend, seasonal) \<Rightarrow> level + trend + seasonal 0)"

section \<open>The contract of the external least-squares fit\<close>




section \<open>Concrete inputs\<close>

text \<open>The inputs at which the properties below are evaluated: a data point with a
  given consumption at hour 0 of the first day of the year, an estimator that always
  returns the constant model 5, a series that drops from 240 to 0 after one season,
  and a series of nine zeros followed by 100.\<close>

definition point_of :: "real \<Rightarrow> energy_data_point" where
  "point_of c =
     \<lparr>pt_consumption = c, pt_hour = 0, pt_dayofweek = 0, pt_month = 1, pt_dayofyear = 1\<rparr>"

definition constant_sklearn :: sklearn where
  "constant_sklearn =
     \<lparr>sk_fit = (\<lambda>X y. \<lparr>coef = [0, 0, 0, 0, 0], intercept = 5\<rparr>),
      sk_score = (\<lambda>X y. 1)\<rparr>"

definition drop_series :: "real list" where
  "drop_series = replicate 24 240 @ replicate 24 0"

definition spike_series :: "real list" where
  "spike_series = [0, 0, 0, 0, 0, 0, 0, 0, 0, 100]"

section \<open>Verified properties\<close>

subsection \<open>Moving average and the short-series delegation\<close>

lemma py_last_ge: "0 < n \<Longrightarrow> py_last xs n = drop (length xs - n) xs"
  by (simp add: py_last_def)

text \<open>
  Claim C3. On every series of fewer than 48 points (two seasons of 24), Holt-Winters
  with the default parameters returns exactly what exponential smoothing with
  \<open>alpha = 0.3\<close> returns on the same series.
\<close>

theorem holt_winters_short_is_exponential_smoothing:
  "length data < 48 \<Longrightarrow>
     holt_winters data 24 0.3 0.1 0.1 = Inr (exponential_smoothing data 0.3)"
  by (simp add: holt_winters_def)

theorem holt_winters_short_is_exponential_smoothing_witness:
  "length [1, 2, 3 :: real] < 48
   \<and> holt_winters [1, 2, 3] 24 0.3 0.1 0.1 = Inr (exponential_smoothing [1, 2, 3] 0.3)
   \<and> exponential_smoothing [1, 2, 3] 0.3 = 1.81"
proof -
  have h: "length [1, 2, 3 :: real] < 48" by simp
  have v: "exponential_smoothing [1, 2, 3] 0.3 = 1.81"
    by (simp add: exponential_smoothing_def es_step_def)
  show ?thesis
    using h v holt_winters_short_is_exponential_smoothing [OF h] by simp
qed

text \<open>
  Claim C5. The moving average with window 24 is the mean of the whole series when the
  series has fewer than 24 points and the mean of its last 24 values otherwise; on the
  consumption values 1, 2, ..., 24 it is 12.5.
\<close>

theorem moving_average_window_24:
  "(length data < 24 \<longrightarrow> moving_average data 24 = np_mean data)
   \<and> (24 \<le> length data \<longrightarrow>
        moving_average data 24 = np_mean (drop (length data - 24) data))
   \<and> moving_average (map real [1..<25]) 24 = Some 12.5"
proof -
  have "sum_list (map real [1..<25]) = 300"
    by (simp add: upt_rec [of _ "numeral _"])
  then have "moving_average (map real [1..<25]) 24 = Some 12.5"
    by (simp add: moving_average_def py_last_def np_mean_def mean_def)
  then show ?thesis
    by (simp add: moving_average_def py_last_def)
qed

theorem moving_average_window_24_witness:
  "moving_average [2, 4] 24 = Some 3
   \<and> moving_average (3 # replicate 24 7) 24 = Some 7"
proof -
  have a: "moving_average [2, 4] 24 = np_mean [2, 4]"
    using moving_average_window_24 [of "[2, 4]"] by simp
  have b: "moving_average (3 # replicate 24 7) 24 = np_mean (replicate 24 7)"
    using moving_average_window_24 [of "3 # replicate 24 7"] by simp
  have c: "np_mean (replicate 24 7) = Some 7"
    by (simp add: np_mean_def mean_def sum_list_replicate)
  show ?thesis using a b c by (simp add: np_mean_def mean_def)
qed

subsection \<open>The ensemble on a non-empty data frame\<close>

lemma weighted_sum_weights:
  "weighted_sum acc
     [(''moving_average'', a), (''exponential_smoothing'', b), (''holt_winters'', c),
      (''arima'', d), (''linear_regression'', e), (''seasonal_decomposition'', f)] weights
   = Inr (fl_add (fl_add (fl_add (fl_add (fl_add (fl_add acc (fl_mul a (Some 0.15)))
        (fl_mul b (Some 0.20))) (fl_mul c (Some 0.25))) (fl_mul d (Some 0.05)))
        (fl_mul e (Some 0.20))) (fl_mul f (Some 0.15)))"
  by (simp add: weights_def lookup_def)

lemma np_mean_Some: "xs \<noteq> [] \<Longrightarrow> np_mean xs = Some (mean xs)"
  by (simp add: np_mean_def)

lemma moving_average_Some: "data \<noteq> [] \<Longrightarrow> \<exists>v. moving_average data 24 = Some v"
  by (auto simp add: moving_average_def np_mean_def py_last_def)

lemma holt_winters_24_Inr: "\<exists>v. holt_winters data 24 a b g = Inr v"
  by (simp add: holt_winters_def)

lemma arima_111_Some: "data \<noteq> [] \<Longrightarrow> \<exists>v. arima_simple data 1 1 1 = Inr (Some v)"
  by (auto simp add: arima_simple_def Let_def np_mean_def)

lemma sd_24_Some:
  "data \<noteq> [] \<Longrightarrow>
     \<exists>r v. seasonal_decomposition_forecast data 24 = Inr r \<and> sd_prediction r = Some v"
  by (auto simp add: seasonal_decomposition_forecast_def Let_def np_mean_def)

lemma lr_Some: "df \<noteq> [] \<Longrightarrow> \<exists>v. lr_prediction (linear_regression_forecast sk df) = Some v"
  by (auto simp add: linear_regression_forecast_def Let_def np_mean_def)

text \<open>On a non-empty data frame no prediction is \<^verbatim>\<open>nan\<close> and nothing is raised: the
  result is the record below, built from the six real predictions.\<close>

lemma ensemble_forecast_nonempty:
  assumes "df \<noteq> []"
  obtains ma hw ar lr sd sdres where
    "moving_average (map consumption df) 24 = Some ma"
    "holt_winters (map consumption df) 24 0.3 0.1 0.1 = Inr hw"
    "arima_simple (map consumption df) 1 1 1 = Inr (Some ar)"
    "lr_prediction (linear_regression_forecast sk df) = Some lr"
    "seasonal_decomposition_forecast (map consumption df) 24 = Inr sdres"
    "sd_prediction sdres = Some sd"
    "ensemble_forecast sk df =
       Inr \<lparr>ensemble_prediction =
               Some (0 + ma * 0.15 + exponential_smoothing (map consumption df) 0.3 * 0.20
                     + hw * 0.25 + ar * 0.05 + lr * 0.20 + sd * 0.15),
             individual_predictions =
               [(''moving_average'', Some ma),
                (''exponential_smoothing'',
                 Some (exponential_smoothing (map consumption df) 0.3)),
                (''holt_winters'', Some hw), (''arima'', Some ar),
                (''linear_regression'', Some lr),
                (''seasonal_decomposition'', Some sd)],
             confidence_interval =
               \<lparr>lower = Some ((0 + ma * 0.15
                     + exponential_smoothing (map consumption df) 0.3 * 0.20
                     + hw * 0.25 + ar * 0.05 + lr * 0.20 + sd * 0.15)
                     - 1.96 * std [ma, exponential_smoothing (map consumption df) 0.3,
                                   hw, ar, lr, sd]),
                upper = Some ((0 + ma * 0.15
                     + exponential_smoothing (map consumption df) 0.3 * 0.20
                     + hw * 0.25 + ar * 0.05 + lr * 0.20 + sd * 0.15)
                     + 1.96 * std [ma, exponential_smoothing (map consumption df) 0.3,
                                   hw, ar, lr, sd])\<rparr>,
             prediction_variance =
               Some (std [ma, exponential_smoothing (map consumption df) 0.3, hw, ar, lr, sd]),
             algorithm_weights = weights,
             linear_regression_details = linear_regression_forecast sk df,
             seasonal_analysis = sdres\<rparr>"
proof -
  from assms have ne: "map consumption df \<noteq> []" by simp
  obtain ma where 1: "moving_average (map consumption df) 24 = Some ma"
    using moving_average_Some [OF ne] by blast
  obtain hw where 2: "holt_winters (map consumption df) 24 0.3 0.1 0.1 = Inr hw"
    using holt_winters_24_Inr by blast
  obtain ar where 3: "arima_simple (map consumption df) 1 1 1 = Inr (Some ar)"
    using arima_111_Some [OF ne] by blast
  obtain lr where 4: "lr_prediction (linear_regression_forecast sk df) = Some lr"
    using lr_Some [OF assms] by blast
  obtain sdres sd
    where 5: "seasonal_decomposition_forecast (map consumption df) 24 = Inr sdres"
      and 6: "sd_prediction sdres = Some sd"
    using sd_24_Some [OF ne] by blast
  show ?thesis
  proof (rule that [OF 1 2 3 4 5 6])
    show "ensemble_forecast sk df =
       Inr \<lparr>ensemble_prediction =
               Some (0 + ma * 0.15 + exponential_smoothing (map consumption df) 0.3 * 0.20
                     + hw * 0.25 + ar * 0.05 + lr * 0.20 + sd * 0.15),
             individual_predictions =
               [(''moving_average'', Some ma),
                (''exponential_smoothing'',
                 Some (exponential_smoothing (map consumption df) 0.3)),
                (''holt_winters'', Some hw), (''arima'', Some ar),
                (''linear_regression'', Some lr),
                (''seasonal_decomposition'', Some sd)],
             confidence_interval =
               \<lparr>lower = Some ((0 + ma * 0.15
                     + exponential_smoothing (map consumption df) 0.3 * 0.20
                     + hw * 0.25 + ar * 0.05 + lr * 0.20 + sd * 0.15)
                     - 1.96 * std [ma, exponential_smoothing (map consumption df) 0.3,
                                   hw, ar, lr, sd]),
                upper = Some ((0 + ma * 0.15
                     + exponential_smoothing (map consumption df) 0.3 * 0.20
                     + hw * 0.25 + ar * 0.05 + lr * 0.20 + sd * 0.15)
                     + 1.96 * std [ma, exponential_smoothing (map consumption df) 0.3,
                                   hw, ar, lr, sd])\<rparr>,
             prediction_variance =
               Some (std [ma, exponential_smoothing (map consumption df) 0.3, hw, ar, lr, sd]),
             algorithm_weights = weights,
             linear_regression_details = linear_regression_forecast sk df,
             seasonal_analysis = sdres\<rparr>"
      unfolding ensemble_forecast_def Let_def 1 2 3 4 5 6 weighted_sum_weights
      by (simp add: 6 fl_add_def fl_mul_def fl_sub_def np_std_def)
  qed
qed


lemma std_nonneg: "0 \<le> std xs"
  unfolding std_def mean_def
  by (intro real_sqrt_ge_zero divide_nonneg_nonneg sum_list_nonneg) auto


lemma ensemble_constant_10:
  "\<exists>r. ensemble_forecast constant_sklearn (map to_row (replicate 10 (point_of 5))) = Inr r
      \<and> prediction_variance r = Some 0 \<and> ensemble_prediction r = Some 5"
  by (simp add: ensemble_forecast_def Let_def moving_average_def np_mean_def mean_def
     holt_winters_def exponential_smoothing_def arima_simple_def seasonal_decomposition_forecast_def
     linear_regression_forecast_def weighted_sum_weights to_row_def point_of_def constant_sklearn_def
     predict_def dot_def next_hour_row_def feature_row_def np_diff_def ar_term_def py_neg_index_def
     fl_add_def fl_mul_def fl_sub_def np_std_def std_def es_step_def numeral_eq_Suc
     del: weighted_sum.simps)

lemma ensemble_spike:
  "\<exists>r p. ensemble_forecast sk (map (\<lambda>c. to_row (point_of c)) spike_series) = Inr r
      \<and> 0 \<le> p
      \<and> ensemble_prediction r = Some (24 + 0.2 * p)
      \<and> prediction_variance r = Some (std [10, 30, 30, 150, p, 10])
      \<and> lower (confidence_interval r) = Some (24 + 0.2 * p - 1.96 * std [10, 30, 30, 150, p, 10])"
  apply (simp add: ensemble_forecast_def Let_def moving_average_def np_mean_def mean_def
     holt_winters_def exponential_smoothing_def arima_simple_def seasonal_decomposition_forecast_def
     linear_regression_forecast_def weighted_sum_weights to_row_def point_of_def spike_series_def
      np_diff_def ar_term_def py_neg_index_def
     fl_add_def fl_mul_def fl_sub_def np_std_def es_step_def 
     del: weighted_sum.simps)
  done

lemma std_spike:
  "std [10, 30, 30, 150, p, 10] = sqrt ((5 * p\<^sup>2 - 460 * p + 94100) / 36)"
proof -
  have "mean (map (\<lambda>x. (x - mean [10, 30, 30, 150, p, 10])\<^sup>2) [10, 30, 30, 150, p, 10])
        = (5 * p\<^sup>2 - 460 * p + 94100) / 36"
    by (simp add: mean_def power2_eq_square field_simps)
  then show ?thesis by (simp only: std_def)
qed

lemma spike_lower_negative:
  assumes "0 \<le> p"
  shows "24 + 0.2 * p - 1.96 * std [10, 30, 30, 150, p, 10] < 0"
proof -
  let ?V = "(5 * p\<^sup>2 - 460 * p + 94100) / 36"
  have sq: "0 \<le> (p - 60)\<^sup>2" by simp
  have "((24 + 0.2 * p) / 1.96)\<^sup>2 < ?V"
    using assms sq by (simp add: power2_eq_square field_simps)
  then have "(24 + 0.2 * p) / 1.96 < sqrt ?V"
    by (rule real_less_rsqrt)
  then have "24 + 0.2 * p < 1.96 * sqrt ?V"
    by (simp add: field_simps)
  then show ?thesis by (simp add: std_spike)
qed





text \<open>
  Claim C7. On every non-empty data frame, so on every valid series, the reported
  prediction variance \<open>s\<close> is the population standard deviation of the six individual
  predictions (the square root of their mean squared deviation from their mean), the
  confidence interval is the blended prediction \<open>e\<close> minus and plus \<open>1.96 s\<close>, the
  blended prediction lies inside it, and the interval is the single point \<open>e\<close> when
  \<open>s = 0\<close>.
\<close>

theorem ensemble_confidence_interval:
  "df \<noteq> [] \<longrightarrow>
     (\<exists>r e s vs. ensemble_forecast sk df = Inr r
        \<and> ensemble_prediction r = Some e
        \<and> map snd (individual_predictions r) = map Some vs
        \<and> length vs = 6
        \<and> prediction_variance r = Some s
        \<and> s = sqrt (sum_list (map (\<lambda>v. (v - sum_list vs / 6)\<^sup>2) vs) / 6)
        \<and> lower (confidence_interval r) = Some (e - 1.96 * s)
        \<and> upper (confidence_interval r) = Some (e + 1.96 * s)
        \<and> e - 1.96 * s \<le> e \<and> e \<le> e + 1.96 * s
        \<and> (0 < s \<longrightarrow> e - 1.96 * s < e \<and> e < e + 1.96 * s)
        \<and> (s = 0 \<longrightarrow> e - 1.96 * s = e \<and> e + 1.96 * s = e))"
proof
  assume ne: "df \<noteq> []"
  show "\<exists>r e s vs. ensemble_forecast sk df = Inr r
        \<and> ensemble_prediction r = Some e
        \<and> map snd (individual_predictions r) = map Some vs
        \<and> length vs = 6
        \<and> prediction_variance r = Some s
        \<and> s = sqrt (sum_list (map (\<lambda>v. (v - sum_list vs / 6)\<^sup>2) vs) / 6)
        \<and> lower (confidence_interval r) = Some (e - 1.96 * s)
        \<and> upper (confidence_interval r) = Some (e + 1.96 * s)
        \<and> e - 1.96 * s \<le> e \<and> e \<le> e + 1.96 * s
        \<and> (0 < s \<longrightarrow> e - 1.96 * s < e \<and> e < e + 1.96 * s)
        \<and> (s = 0 \<longrightarrow> e - 1.96 * s = e \<and> e + 1.96 * s = e)"
  proof (rule ensemble_forecast_nonempty [OF ne, where sk = sk])
    fix ma hw ar lr sd sdres
    let ?es = "exponential_smoothing (map consumption df) 0.3"
    let ?e = "0 + ma * 0.15 + ?es * 0.20 + hw * 0.25 + ar * 0.05 + lr * 0.20 + sd * 0.15"
    let ?vs = "[ma, ?es, hw, ar, lr, sd]"
    let ?R = "\<lparr>ensemble_prediction = Some ?e,
            individual_predictions =
              [(''moving_average'', Some ma), (''exponential_smoothing'', Some ?es),
               (''holt_winters'', Some hw), (''arima'', Some ar),
               (''linear_regression'', Some lr), (''seasonal_decomposition'', Some sd)],
            confidence_interval =
              \<lparr>lower = Some (?e - 1.96 * std ?vs), upper = Some (?e + 1.96 * std ?vs)\<rparr>,
            prediction_variance = Some (std ?vs),
            algorithm_weights = weights,
            linear_regression_details = linear_regression_forecast sk df,
            seasonal_analysis = sdres\<rparr>"
    assume r: "ensemble_forecast sk df = Inr ?R"
    have f: "ensemble_prediction ?R = Some ?e"
      "map snd (individual_predictions ?R) = map Some ?vs" "length ?vs = 6"
      "prediction_variance ?R = Some (std ?vs)"
      "lower (confidence_interval ?R) = Some (?e - 1.96 * std ?vs)"
      "upper (confidence_interval ?R) = Some (?e + 1.96 * std ?vs)"
      by simp_all
    have s: "std ?vs = sqrt (sum_list (map (\<lambda>v. (v - sum_list ?vs / 6)\<^sup>2) ?vs) / 6)"
      by (simp add: std_def mean_def)
    have g: "?e - 1.96 * std ?vs \<le> ?e" "?e \<le> ?e + 1.96 * std ?vs"
      "0 < std ?vs \<longrightarrow> ?e - 1.96 * std ?vs < ?e \<and> ?e < ?e + 1.96 * std ?vs"
      "std ?vs = 0 \<longrightarrow> ?e - 1.96 * std ?vs = ?e \<and> ?e + 1.96 * std ?vs = ?e"
      using std_nonneg [of ?vs] by simp_all
    show ?thesis
      using r f s g by blast
  qed
qed

theorem ensemble_confidence_interval_witness:
  "(\<exists>r. ensemble_forecast constant_sklearn (map to_row (replicate 10 (point_of 5))) = Inr r
       \<and> prediction_variance r = Some 0
       \<and> ensemble_prediction r = Some 5
       \<and> lower (confidence_interval r) = Some 5
       \<and> upper (confidence_interval r) = Some 5)
   \<and> (\<exists>r e s u. ensemble_forecast constant_sklearn (map (\<lambda>c. to_row (point_of c)) spike_series) = Inr r
       \<and> prediction_variance r = Some s \<and> 0 < s
       \<and> ensemble_prediction r = Some e
       \<and> lower (confidence_interval r) = Some (e - 1.96 * s) \<and> e - 1.96 * s < e
       \<and> upper (confidence_interval r) = Some u \<and> e < u)"
proof -
  let ?df = "map to_row (replicate 10 (point_of 5))"
  let ?sp = "map (\<lambda>c. to_row (point_of c)) spike_series"
  have ne: "?df \<noteq> []" by simp
  have ne': "?sp \<noteq> []" by (simp add: spike_series_def)
  obtain r e s vs where r: "ensemble_forecast constant_sklearn ?df = Inr r"
    and f: "ensemble_prediction r = Some e" "prediction_variance r = Some s"
      "lower (confidence_interval r) = Some (e - 1.96 * s)"
      "upper (confidence_interval r) = Some (e + 1.96 * s)"
      "s = 0 \<longrightarrow> e - 1.96 * s = e \<and> e + 1.96 * s = e"
    using ensemble_confidence_interval [of ?df constant_sklearn, THEN mp, OF ne] by blast
  from ensemble_constant_10 r f have "s = 0" "e = 5" by auto
  with r f have A: "\<exists>r. ensemble_forecast constant_sklearn ?df = Inr r
       \<and> prediction_variance r = Some 0
       \<and> ensemble_prediction r = Some 5
       \<and> lower (confidence_interval r) = Some 5
       \<and> upper (confidence_interval r) = Some 5" by auto
  obtain r' e' s' vs' where r': "ensemble_forecast constant_sklearn ?sp = Inr r'"
    and f': "ensemble_prediction r' = Some e'" "prediction_variance r' = Some s'"
      "lower (confidence_interval r') = Some (e' - 1.96 * s')"
      "upper (confidence_interval r') = Some (e' + 1.96 * s')"
      "0 < s' \<longrightarrow> e' - 1.96 * s' < e' \<and> e' < e' + 1.96 * s'"
    using ensemble_confidence_interval [of ?sp constant_sklearn, THEN mp, OF ne'] by blast
  obtain p where p: "0 \<le> p" "prediction_variance r' = Some (std [10, 30, 30, 150, p, 10])"
    "ensemble_prediction r' = Some (24 + 0.2 * p)"
    using ensemble_spike [of constant_sklearn] r' by auto
  have "0 < s'"
  proof -
    have "0 \<le> 24 + 0.2 * p" using p(1) by simp
    with spike_lower_negative [OF p(1)] have "0 < std [10, 30, 30, 150, p, 10]" by simp
    with p(2) f'(2) show ?thesis by simp
  qed
  with r' f' have B: "\<exists>r e s u. ensemble_forecast constant_sklearn ?sp = Inr r
       \<and> prediction_variance r = Some s \<and> 0 < s
       \<and> ensemble_prediction r = Some e
       \<and> lower (confidence_interval r) = Some (e - 1.96 * s) \<and> e - 1.96 * s < e
       \<and> upper (confidence_interval r) = Some u \<and> e < u" by blast
  from A B show ?thesis by (rule conjI)
qed

text \<open>
  Claim C10. There is a valid series (ten points, no negative consumption: nine zeros
  and then 100) for which the lower end of the confidence interval is strictly
  negative, whatever the regression estimator returns: the interval ends are the
  blended prediction minus and plus 1.96 standard deviations and are not clamped at 0.
\<close>

theorem confidence_interval_lower_negative:
  "10 \<le> length spike_series
   \<and> list_all (\<lambda>c. 0 \<le> c) spike_series
   \<and> (\<exists>r l. enhanced_prediction sk (map point_of spike_series) ''ensemble'' = Inr r
         \<and> lower (confidence_interval r) = Some l \<and> l < 0)"
proof -
  obtain r p where r: "ensemble_forecast sk (map (\<lambda>c. to_row (point_of c)) spike_series) = Inr r"
    and p: "0 \<le> p"
    and l: "lower (confidence_interval r) = Some (24 + 0.2 * p - 1.96 * std [10, 30, 30, 150, p, 10])"
    using ensemble_spike [of sk] by blast
  have e: "enhanced_prediction sk (map point_of spike_series) ''ensemble''
           = ensemble_forecast sk (map (\<lambda>c. to_row (point_of c)) spike_series)"
    by (simp add: enhanced_prediction_def spike_series_def)
  have "\<exists>r l. enhanced_prediction sk (map point_of spike_series) ''ensemble'' = Inr r
         \<and> lower (confidence_interval r) = Some l \<and> l < 0"
    using r l spike_lower_negative [OF p] unfolding e by blast
  moreover have "10 \<le> length spike_series" "list_all (\<lambda>c. 0 \<le> c) spike_series"
    by (simp_all add: spike_series_def)
  ultimately show ?thesis by blast
qed

subsection \<open>Simplified ARIMA with the default orders\<close>

lemma length_np_diff: "length (np_diff a) = length a - 1"
  by (simp add: np_diff_def)

lemma nth_np_diff: "Suc i < length a \<Longrightarrow> np_diff a ! i = a ! Suc i - a ! i"
  by (simp add: np_diff_def nth_tl)

lemma last_np_diff:
  assumes "2 \<le> length a"
  shows "last (np_diff a) = last a - a ! (length a - 2)"
proof -
  define n where "n = length a - 2"
  have n: "length a = Suc (Suc n)" using assms by (simp add: n_def)
  then have ne: "a \<noteq> []" by auto
  have "length (np_diff a) = Suc n" by (simp add: length_np_diff n)
  then have dne: "np_diff a \<noteq> []" by auto
  have "last (np_diff a) = np_diff a ! n"
    by (simp add: last_conv_nth [OF dne] length_np_diff n)
  also have "\<dots> = a ! Suc n - a ! n"
    by (simp add: nth_np_diff n)
  also have "a ! Suc n = last a"
    by (simp add: last_conv_nth [OF ne] n)
  finally show ?thesis by (simp add: n)
qed

lemma ar_term_1: "diff_data \<noteq> [] \<Longrightarrow> ar_term diff_data (Suc 0) = 0.5 * last diff_data"
  by (cases diff_data) (simp_all add: ar_term_def py_neg_index_def last_conv_nth)

text \<open>
  Claim C9. With \<open>p = d = q = 1\<close> the simplified ARIMA returns the mean of the series
  when it has fewer than 2 points; otherwise it differences once, returns the last raw
  value if the differenced series has fewer than 1 point, and otherwise the last raw
  value plus 0.5 times the last difference, floor-clamped at 0. From 2 points on the
  differenced series has one point less than the series, so the middle case never
  applies.
\<close>

theorem arima_simple_default:
  "arima_simple data 1 1 1 =
     (if length data < 2 then Inr (np_mean data)
      else if length (np_diff data) < 1 then Inr (Some (last data))
      else Inr (Some (max 0 (last data + 0.5 * last (np_diff data)))))
   \<and> (2 \<le> length data \<longrightarrow>
        length (np_diff data) = length data - 1
        \<and> last (np_diff data) = last data - data ! (length data - 2)
        \<and> arima_simple data 1 1 1
            = Inr (Some (max 0 (last data + 0.5 * (last data - data ! (length data - 2))))))"
proof -
  have a: "arima_simple data 1 1 1 =
     (if length data < 2 then Inr (np_mean data)
      else if length (np_diff data) < 1 then Inr (Some (last data))
      else Inr (Some (max 0 (last data + 0.5 * last (np_diff data)))))"
  proof (cases "length data < 2")
    case True
    then show ?thesis by (simp add: arima_simple_def)
  next
    case False
    then have ne: "data \<noteq> []" by auto
    from False have "0 < length (np_diff data)" by (simp add: length_np_diff)
    then have dne: "np_diff data \<noteq> []" by auto
    from False ne dne show ?thesis
      by (simp add: arima_simple_def Let_def ar_term_1 length_np_diff)
  qed
  have b: "arima_simple data 1 1 1
            = Inr (Some (max 0 (last data + 0.5 * (last data - data ! (length data - 2)))))"
    if "2 \<le> length data"
    unfolding a using that by (simp add: length_np_diff last_np_diff)
  show ?thesis
    by (intro conjI impI a b length_np_diff last_np_diff)
qed

theorem arima_simple_default_witness:
  "arima_simple [4] 1 1 1 = Inr (Some 4)
   \<and> arima_simple [3, 5] 1 1 1 = Inr (Some 6)
   \<and> arima_simple [5, 1] 1 1 1 = Inr (Some 0)"
proof -
  have a: "arima_simple [4] 1 1 1 = Inr (Some 4)"
    using arima_simple_default [of "[4]", THEN conjunct1] by (simp add: np_mean_def mean_def)
  have b: "arima_simple [3, 5] 1 1 1 = Inr (Some 6)"
    using arima_simple_default [of "[3, 5]", THEN conjunct2] by simp
  have c: "arima_simple [5, 1] 1 1 1 = Inr (Some 0)"
    using arima_simple_default [of "[5, 1]", THEN conjunct2] by simp
  show ?thesis using a b c by simp
qed

subsection \<open>Holt-Winters against its specification\<close>

lemma hw_init_24:
  "hw_init x 24 = (fst (spec_hw_initial x), fst (snd (spec_hw_initial x)),
                   map (snd (snd (spec_hw_initial x))) [0..<24])"
  by (simp add: hw_init_def spec_hw_initial_def Let_def)

lemma hw_step_refines:
  assumes "length s = 24" and "\<And>j. j < 24 \<Longrightarrow> s ! j = f j"
  shows "\<exists>s'. hw_step x 24 0.3 0.1 0.1 i (l, t, s)
               = (fst (spec_hw_update x i (l, t, f)),
                  fst (snd (spec_hw_update x i (l, t, f))), s')
            \<and> length s' = 24
            \<and> (\<forall>j<24. s' ! j = snd (snd (spec_hw_update x i (l, t, f))) j)"
proof -
  have m: "i mod 24 < 24" by simp
  show ?thesis
    using assms m by (simp add: Let_def nth_list_update)
qed

lemma hw_loop_refines:
  "\<exists>s. fold (hw_step x 24 0.3 0.1 0.1) [24..<24 + k] (hw_init x 24)
          = (fst (spec_hw_iterate x k), fst (snd (spec_hw_iterate x k)), s)
       \<and> length s = 24
       \<and> (\<forall>j<24. s ! j = snd (snd (spec_hw_iterate x k)) j)"
proof (induction k)
  case 0
  show ?case by (simp add: hw_init_24)
next
  case (Suc k)
  then obtain s where
    st: "fold (hw_step x 24 0.3 0.1 0.1) [24..<24 + k] (hw_init x 24)
          = (fst (spec_hw_iterate x k), fst (snd (spec_hw_iterate x k)), s)"
    and len: "length s = 24"
    and nth: "\<And>j. j < 24 \<Longrightarrow> s ! j = snd (snd (spec_hw_iterate x k)) j"
    by blast
  obtain l t f where it: "spec_hw_iterate x k = (l, t, f)"
    by (cases "spec_hw_iterate x k") auto
  have up: "[24..<24 + Suc k] = [24..<24 + k] @ [24 + k]"
    unfolding add_Suc_right by (rule upt_Suc_append) simp
  from hw_step_refines [of s f x "24 + k" l t] len nth it
  obtain s' where
    "hw_step x 24 0.3 0.1 0.1 (24 + k) (l, t, s)
       = (fst (spec_hw_update x (24 + k) (l, t, f)),
          fst (snd (spec_hw_update x (24 + k) (l, t, f))), s')"
    "length s' = 24"
    "\<forall>j<24. s' ! j = snd (snd (spec_hw_update x (24 + k) (l, t, f))) j"
    by auto
  then show ?case
    unfolding up fold_append comp_def st by (simp add: it del: hw_step.simps spec_hw_update.simps)
qed

text \<open>
  Claim C4. On every series of at least 48 points Holt-Winters with the default
  parameters computes what the specification describes: level, trend and seasonal
  values initialised from the first two blocks of 24, updated by the three recurrences
  for \<open>i\<close> from 24 to the end of the series, and the forecast level + trend +
  seasonal[0], read at seasonal index 0.
\<close>

theorem holt_winters_refines_specification:
  assumes "48 \<le> length data"
  shows "holt_winters data 24 0.3 0.1 0.1 = Inr (spec_holt_winters data)"
proof -
  define k where "k = length data - 24"
  have len: "length data = 24 + k" using assms by (simp add: k_def)
  obtain s where
    st: "fold (hw_step data 24 0.3 0.1 0.1) [24..<24 + k] (hw_init data 24)
          = (fst (spec_hw_iterate data k), fst (snd (spec_hw_iterate data k)), s)"
    and "length s = 24"
    and nth: "\<forall>j<24. s ! j = snd (snd (spec_hw_iterate data k)) j"
    using hw_loop_refines [of data k] by blast
  from nth have s0: "s ! 0 = snd (snd (spec_hw_iterate data k)) 0" by simp
  have hw: "holt_winters data 24 0.3 0.1 0.1
        = Inr (hw_result (fold (hw_step data 24 0.3 0.1 0.1) [24..<24 + k] (hw_init data 24)))"
    using assms by (simp add: holt_winters_def hw_loop_def len)
  have sp: "spec_holt_winters data
        = fst (spec_hw_iterate data k) + fst (snd (spec_hw_iterate data k))
          + snd (snd (spec_hw_iterate data k)) 0"
    by (simp add: spec_holt_winters_def k_def split: prod.splits)
  show ?thesis
    unfolding hw st sp by (simp add: s0)
qed

theorem holt_winters_refines_specification_witness:
  "48 \<le> length drop_series
   \<and> holt_winters drop_series 24 0.3 0.1 0.1 = Inr (spec_holt_winters drop_series)"
proof -
  have h: "48 \<le> length drop_series" by (simp add: drop_series_def)
  show ?thesis
    using h holt_winters_refines_specification [OF h] by (rule conjI)
qed

subsection \<open>Constant series\<close>



























subsection \<open>The sign of the predictions\<close>

text \<open>On a series without negative values five of the six algorithms cannot return a
  negative prediction: the moving average and exponential smoothing average values
  that are not negative, and the simplified ARIMA, the seasonal decomposition and the
  linear regression return a mean or apply \<^verbatim>\<open>max(0, prediction)\<close>.\<close>

lemma mean_nonneg: "\<forall>x\<in>set xs. 0 \<le> x \<Longrightarrow> 0 \<le> mean xs"
  unfolding mean_def by (intro divide_nonneg_nonneg sum_list_nonneg) auto

lemma np_mean_nonneg: "\<forall>x\<in>set xs. 0 \<le> x \<Longrightarrow> np_mean xs = Some v \<Longrightarrow> 0 \<le> v"
  by (auto simp: np_mean_def mean_nonneg split: if_splits)

lemma moving_average_nonneg:
  assumes "\<forall>x\<in>set data. 0 \<le> x" and "moving_average data window = Some v"
  shows "0 \<le> v"
proof -
  have "\<forall>x\<in>set (py_last data window). 0 \<le> x"
    using assms(1) by (auto simp: py_last_def dest: in_set_dropD)
  with assms show ?thesis
    by (auto simp: moving_average_def dest: np_mean_nonneg split: if_splits)
qed

lemma es_fold_nonneg:
  "\<forall>x\<in>set xs. 0 \<le> x \<Longrightarrow> 0 \<le> r \<Longrightarrow> 0 \<le> fold (es_step 0.3) xs r"
  by (induction xs arbitrary: r) (simp_all add: es_step_def)

lemma exponential_smoothing_nonneg:
  "\<forall>x\<in>set data. 0 \<le> x \<Longrightarrow> 0 \<le> exponential_smoothing data 0.3"
  by (cases data) (simp_all add: exponential_smoothing_def es_fold_nonneg)

lemma arima_simple_nonneg:
  "\<forall>x\<in>set data. 0 \<le> x \<Longrightarrow> arima_simple data p d q = Inr (Some v) \<Longrightarrow> 0 \<le> v"
  by (auto simp: arima_simple_def Let_def dest: np_mean_nonneg split: if_splits)

lemma seasonal_decomposition_nonneg:
  "\<forall>x\<in>set data. 0 \<le> x \<Longrightarrow> seasonal_decomposition_forecast data period = Inr r \<Longrightarrow>
     sd_prediction r = Some v \<Longrightarrow> 0 \<le> v"
  by (auto simp: seasonal_decomposition_forecast_def Let_def dest: np_mean_nonneg
      split: if_splits)

lemma linear_regression_nonneg:
  assumes "\<forall>r\<in>set df. 0 \<le> consumption r"
    and "lr_prediction (linear_regression_forecast sk df) = Some v"
  shows "0 \<le> v"
proof (cases "length df < 10")
  case True
  from assms(1) have "\<forall>x\<in>set (map consumption df). 0 \<le> x" by simp
  moreover from True assms(2) have "np_mean (map consumption df) = Some v"
    by (simp add: linear_regression_forecast_def)
  ultimately show ?thesis by (rule np_mean_nonneg)
next
  case False
  with assms(2) show ?thesis
    by (auto simp: linear_regression_forecast_def Let_def)
qed

text \<open>Holt-Winters evaluated on the series that holds 240 for one season and then 0
  for one season.\<close>

lemma length_drop_series: "length drop_series = 48"
  by (simp add: drop_series_def)

lemma nth_drop_series: "i < 48 \<Longrightarrow> drop_series ! i = (if i < 24 then 240 else 0)"
  by (simp add: drop_series_def nth_append)

lemma hw_init_drop_series: "hw_init drop_series 24 = (240, - 10, replicate 24 0)"
proof -
  have a: "take 24 drop_series = replicate 24 240"
    "take 24 (drop 24 drop_series) = replicate 24 0"
    by (simp_all add: drop_series_def)
  have b: "map (\<lambda>i. drop_series ! i - 240) [0..<24] = replicate 24 0"
    by (simp add: list_eq_iff_nth_eq nth_drop_series)
  show ?thesis
    unfolding hw_init_def Let_def a by (simp add: mean_def sum_list_replicate b)
qed

lemma replicate_24:
  "replicate 24 x = [x, x, x, x, x, x, x, x, x, x, x, x, x, x, x, x, x, x, x, x, x, x, x, x]"
  by (simp add: numeral_eq_Suc)

lemma holt_winters_drop_series_value:
  "hw_result (hw_loop drop_series 24 0.3 0.1 0.1 (240, - 10, replicate 24 0)) < 0"
  unfolding hw_loop_def replicate_24
  by (simp add: length_drop_series upt_rec [of _ "numeral _"] nth_drop_series Let_def)

text \<open>
  Claim C2 says that every algorithm returns a prediction that is not negative on a
  series without negative values. Holt-Winters does not: it returns level + trend +
  seasonal[0] without the floor at 0, and on the series that drops from 240 to 0
  after 24 points the result is negative. The value reaches the caller unchanged as
  the \<^verbatim>\<open>holt_winters\<close> entry of the individual predictions of the ensemble.
\<close>

theorem holt_winters_negative_prediction:
  "list_all (\<lambda>c. 0 \<le> c) drop_series
   \<and> (\<exists>v. holt_winters drop_series 24 0.3 0.1 0.1 = Inr v \<and> v < 0)
   \<and> (\<exists>r v. enhanced_prediction sk (map point_of drop_series) ''ensemble'' = Inr r
          \<and> map_of (individual_predictions r) ''holt_winters'' = Some (Some v) \<and> v < 0)"
proof -
  have a: "list_all (\<lambda>c. 0 \<le> c) drop_series"
    by (simp add: drop_series_def list_all_iff)
  have hw: "holt_winters drop_series 24 0.3 0.1 0.1
      = Inr (hw_result (hw_loop drop_series 24 0.3 0.1 0.1 (240, - 10, replicate 24 0)))"
    by (simp add: holt_winters_def length_drop_series hw_init_drop_series)
  let ?v = "hw_result (hw_loop drop_series 24 0.3 0.1 0.1 (240, - 10, replicate 24 0))"
  have neg: "?v < 0" by (rule holt_winters_drop_series_value)
  let ?df = "map to_row (map point_of drop_series)"
  have data: "map consumption ?df = drop_series"
    by (simp add: list_eq_iff_nth_eq to_row_def point_of_def)
  have ne: "?df \<noteq> []" by (simp add: drop_series_def)
  have e: "enhanced_prediction sk (map point_of drop_series) ''ensemble''
           = ensemble_forecast sk ?df"
    by (simp add: enhanced_prediction_def length_drop_series)
  have c: "\<exists>r v. enhanced_prediction sk (map point_of drop_series) ''ensemble'' = Inr r
          \<and> map_of (individual_predictions r) ''holt_winters'' = Some (Some v) \<and> v < 0"
  proof (rule ensemble_forecast_nonempty [OF ne, where sk = sk])
    fix ma hw' ar lr sd sdres
    let ?es = "exponential_smoothing (map consumption ?df) 0.3"
    let ?e = "0 + ma * 0.15 + ?es * 0.20 + hw' * 0.25 + ar * 0.05 + lr * 0.20 + sd * 0.15"
    let ?vs = "[ma, ?es, hw', ar, lr, sd]"
    let ?R = "\<lparr>ensemble_prediction = Some ?e,
            individual_predictions =
              [(''moving_average'', Some ma), (''exponential_smoothing'', Some ?es),
               (''holt_winters'', Some hw'), (''arima'', Some ar),
               (''linear_regression'', Some lr), (''seasonal_decomposition'', Some sd)],
            confidence_interval =
              \<lparr>lower = Some (?e - 1.96 * std ?vs), upper = Some (?e + 1.96 * std ?vs)\<rparr>,
            prediction_variance = Some (std ?vs),
            algorithm_weights = weights,
            linear_regression_details = linear_regression_forecast sk ?df,
            seasonal_analysis = sdres\<rparr>"
    assume h: "holt_winters (map consumption ?df) 24 0.3 0.1 0.1 = Inr hw'"
      and r: "ensemble_forecast sk ?df = Inr ?R"
    from h have "hw' = ?v" unfolding data hw by simp
    with neg have n: "hw' < 0" by simp
    have m: "map_of (individual_predictions ?R) ''holt_winters'' = Some (Some hw')"
      by simp
    show ?thesis
      unfolding e using r m n by (intro exI [of _ ?R] exI [of _ hw'] conjI)
  qed
  from hw neg have b: "\<exists>v. holt_winters drop_series 24 0.3 0.1 0.1 = Inr v \<and> v < 0"
    by simp
  from a b c show ?thesis by (intro conjI)
qed

end
